theory Spec2Isabelle
  imports Main "HOL-Library.Word" "HOL-Library.Multiset" "HOL-Library.List_Lexorder"
begin

section \<open>Data model of share/blob.go\<close>

text \<open>
  A Go \<^verbatim>\<open>[]byte\<close> is either the nil slice or a present sequence of bytes; the two are
  told apart by \<^verbatim>\<open>signer != nil\<close> in \<^verbatim>\<open>NewBlob\<close>, so the model keeps both:
  \<open>None\<close> is nil, \<open>Some xs\<close> is a present slice (possibly of length zero).
  \<^verbatim>\<open>len\<close> of the nil slice is 0.
\<close>

type_synonym byte = "8 word"
type_synonym bytes = "byte list option"

definition len :: "bytes \<Rightarrow> nat" where
  "len bs = (case bs of None \<Rightarrow> 0 | Some xs \<Rightarrow> length xs)"

text \<open>
  Go's \<^verbatim>\<open>error\<close> interface. One constructor per error value that blob.go creates
  (the comment gives the message of the source), one for the two wrappers made with
  \<^verbatim>\<open>%w\<close>, one for errors that collaborators (codec, namespace, splitter) create, and
  one for the run-time panic of a nil dereference.
\<close>

datatype error =
    EmptyDataError                             \<comment> \<open>"data can not be empty"\<close>
  | EmptyNamespaceError                        \<comment> \<open>"namespace can not be empty"\<close>
  | UnsupportedNamespaceVersionError byte byte \<comment> \<open>"namespace version must be %d got %d"\<close>
  | SignerNotAllowedError                      \<comment> \<open>"share version 0 does not support signer"\<close>
  | SignerSizeError nat                        \<comment> \<open>"share version 1 requires signer of size %d bytes"\<close>
  | UnsupportedShareVersionError byte          \<comment> \<open>"share version %d not supported. Please use 0 or 1"\<close>
  | NamespaceVersionRangeError                 \<comment> \<open>"namespace version can not be greater than MaxNamespaceVersion"\<close>
  | ShareVersionRangeError nat                 \<comment> \<open>"share version can not be greater than MaxShareVersion %d"\<close>
  | InvalidNamespaceError error                \<comment> \<open>"invalid namespace: %w"\<close>
  | DecodeError error                          \<comment> \<open>"failed to unmarshal blob: %w"\<close>
  | CollaboratorError string                   \<comment> \<open>an error value made outside blob.go\<close>
  | NilDereference                             \<comment> \<open>run-time panic\<close>

text \<open>
  The struct \<^verbatim>\<open>Blob\<close>; the namespace type is the collaborator's and stays abstract.
  The accessors \<^verbatim>\<open>Namespace\<close>, \<^verbatim>\<open>Data\<close>, \<^verbatim>\<open>ShareVersion\<close> and \<^verbatim>\<open>Signer\<close> are the
  selectors of the record. Receivers, the elements of a \<^verbatim>\<open>[]*Blob\<close> and the argument of
  \<^verbatim>\<open>NewBlobFromProto\<close> are pointers that the source dereferences without a check; the
  model takes the values they point to.
\<close>

record 'ns Blob =
  namespace :: 'ns
  data :: bytes
  shareVersion :: byte
  signer :: bytes

text \<open>The generated struct \<^verbatim>\<open>v1.BlobProto\<close>, with the fields blob.go reads and writes.\<close>

record BlobProto =
  NamespaceId :: bytes
  NamespaceVersion :: "32 word"
  ShareVersion :: "32 word"
  Data :: bytes
  Signer :: bytes

text \<open>
  Modelled from the spec: the constants are declared outside blob.go. The constants
  contract gives \<open>NamespaceVersionZero = 0\<close>, \<open>ShareVersionZero = 0\<close>,
  \<open>ShareVersionOne = 1\<close>, \<open>NamespaceVersionMax\<close> as the maximum representable namespace
  version (the namespace version is a \<^verbatim>\<open>uint8\<close> in blob.go, so 255) and
  \<open>MaxShareVersion\<close> as the upper bound of the 0--127 range of share versions.
\<close>

definition NamespaceVersionZero :: byte where
  "NamespaceVersionZero = 0"

definition ShareVersionZero :: byte where
  "ShareVersionZero = 0"

definition ShareVersionOne :: byte where
  "ShareVersionOne = 1"

definition NamespaceVersionMax :: "32 word" where
  "NamespaceVersionMax = 255"

definition MaxShareVersion :: "32 word" where
  "MaxShareVersion = 127"

text \<open>
  What blob.go calls and does not define: the methods of \<^verbatim>\<open>Namespace\<close>, the
  constructor \<^verbatim>\<open>NewNamespace\<close>, the constant \<^verbatim>\<open>SignerSize\<close> (whose value the
  constants contract leaves open) and the two codecs of \<^verbatim>\<open>v1.BlobProto\<close>
  (\<^verbatim>\<open>proto.Marshal\<close>/\<^verbatim>\<open>proto.Unmarshal\<close> and \<^verbatim>\<open>json.Marshal\<close>/\<^verbatim>\<open>json.Unmarshal\<close>).
  They are parameters of every function below. A Go function returning
  \<^verbatim>\<open>(T, error)\<close> is a pair whose second component is \<open>None\<close> for a nil error; an
  unmarshal function returns the record it filled, starting from the zero record.
\<close>

record 'ns deps =
  ns_IsEmpty :: "'ns \<Rightarrow> bool"
  ns_Version :: "'ns \<Rightarrow> byte"
  ns_ID :: "'ns \<Rightarrow> bytes"
  ns_Compare :: "'ns \<Rightarrow> 'ns \<Rightarrow> int"
  NewNamespace :: "byte \<Rightarrow> bytes \<Rightarrow> 'ns \<times> error option"
  SignerSize :: nat
  proto_Marshal :: "BlobProto \<Rightarrow> bytes \<times> error option"
  proto_Unmarshal :: "bytes \<Rightarrow> BlobProto \<times> error option"
  json_Marshal :: "BlobProto \<Rightarrow> bytes \<times> error option"
  json_Unmarshal :: "bytes \<Rightarrow> BlobProto \<times> error option"

section \<open>Construction\<close>

text \<open>
  \<^verbatim>\<open>NewBlob\<close> returns \<^verbatim>\<open>(*Blob, error)\<close>: the pair of an optional blob (\<open>None\<close> is the
  nil pointer) and an optional error. The checks run in the order of the source; the
  \<^verbatim>\<open>switch\<close> on the share version is the last one.
\<close>

definition NewBlob ::
  "'ns deps \<Rightarrow> 'ns \<Rightarrow> bytes \<Rightarrow> byte \<Rightarrow> bytes \<Rightarrow> 'ns Blob option \<times> error option" where
  "NewBlob env ns dat shareVer sgnr =
     (if len dat = 0 then (None, Some EmptyDataError)
      else if ns_IsEmpty env ns then (None, Some EmptyNamespaceError)
      else if ns_Version env ns \<noteq> NamespaceVersionZero then
        (None, Some (UnsupportedNamespaceVersionError NamespaceVersionZero (ns_Version env ns)))
      else if shareVer = ShareVersionZero then
        (if sgnr \<noteq> None then (None, Some SignerNotAllowedError)
         else (Some \<lparr>namespace = ns, data = dat, shareVersion = shareVer, signer = sgnr\<rparr>, None))
      else if shareVer = ShareVersionOne then
        (if len sgnr \<noteq> SignerSize env then (None, Some (SignerSizeError (SignerSize env)))
         else (Some \<lparr>namespace = ns, data = dat, shareVersion = shareVer, signer = sgnr\<rparr>, None))
      else (None, Some (UnsupportedShareVersionError shareVer)))"

definition NewV0Blob :: "'ns deps \<Rightarrow> 'ns \<Rightarrow> bytes \<Rightarrow> 'ns Blob option \<times> error option" where
  "NewV0Blob env ns dat = NewBlob env ns dat 0 None"

definition NewV1Blob ::
  "'ns deps \<Rightarrow> 'ns \<Rightarrow> bytes \<Rightarrow> bytes \<Rightarrow> 'ns Blob option \<times> error option" where
  "NewV1Blob env ns dat sgnr = NewBlob env ns dat 1 sgnr"

section \<open>The intermediate record and the two encodings\<close>

text \<open>
  \<^verbatim>\<open>NewBlobFromProto\<close>: two range checks on the 32-bit version fields, then the
  namespace is built from the narrowed version and the id, then \<^verbatim>\<open>NewBlob\<close>. The
  conversions \<^verbatim>\<open>uint8(...)\<close> truncate, which is \<open>ucast\<close> to a shorter word.
\<close>

definition NewBlobFromProto :: "'ns deps \<Rightarrow> BlobProto \<Rightarrow> 'ns Blob option \<times> error option" where
  "NewBlobFromProto env pb =
     (if NamespaceVersion pb > NamespaceVersionMax then (None, Some NamespaceVersionRangeError)
      else if ShareVersion pb > MaxShareVersion then
        (None, Some (ShareVersionRangeError (unat MaxShareVersion)))
      else
        (case NewNamespace env (ucast (NamespaceVersion pb)) (NamespaceId pb) of
           (ns, Some err) \<Rightarrow> (None, Some (InvalidNamespaceError err))
         | (ns, None) \<Rightarrow> NewBlob env ns (Data pb) (ucast (ShareVersion pb)) (Signer pb)))"

definition UnmarshalBlob :: "'ns deps \<Rightarrow> bytes \<Rightarrow> 'ns Blob option \<times> error option" where
  "UnmarshalBlob env blob =
     (case proto_Unmarshal env blob of
        (pb, Some err) \<Rightarrow> (None, Some (DecodeError err))
      | (pb, None) \<Rightarrow> NewBlobFromProto env pb)"

text \<open>
  \<^verbatim>\<open>Marshal\<close> and \<^verbatim>\<open>MarshalJSON\<close> fill the same record and hand it to their codec;
  \<^verbatim>\<open>uint32(...)\<close> widens, which is \<open>ucast\<close> to a longer word.
\<close>

definition Marshal :: "'ns deps \<Rightarrow> 'ns Blob \<Rightarrow> bytes \<times> error option" where
  "Marshal env b =
     proto_Marshal env
       \<lparr>NamespaceId = ns_ID env (namespace b),
        NamespaceVersion = ucast (ns_Version env (namespace b)),
        ShareVersion = ucast (shareVersion b),
        Data = data b,
        Signer = signer b\<rparr>"

definition MarshalJSON :: "'ns deps \<Rightarrow> 'ns Blob \<Rightarrow> bytes \<times> error option" where
  "MarshalJSON env b =
     json_Marshal env
       \<lparr>NamespaceId = ns_ID env (namespace b),
        NamespaceVersion = ucast (ns_Version env (namespace b)),
        ShareVersion = ucast (shareVersion b),
        Data = data b,
        Signer = signer b\<rparr>"

text \<open>
  \<^verbatim>\<open>UnmarshalJSON\<close> has a pointer receiver and returns only an error: the model takes
  the value the receiver points to and returns that value after the call together with
  the error. The assignment \<^verbatim>\<open>*b = *blob\<close> dereferences \<^verbatim>\<open>blob\<close>, which panics on
  a nil pointer.
\<close>

definition UnmarshalJSON :: "'ns deps \<Rightarrow> 'ns Blob \<Rightarrow> bytes \<Rightarrow> 'ns Blob \<times> error option" where
  "UnmarshalJSON env b bb =
     (case json_Unmarshal env bb of
        (pb, Some err) \<Rightarrow> (b, Some err)
      | (pb, None) \<Rightarrow>
          (case NewBlobFromProto env pb of
             (blob, Some err) \<Rightarrow> (b, Some err)
           | (None, None) \<Rightarrow> (b, Some NilDereference)
           | (Some blob, None) \<Rightarrow> (blob, None)))"

section \<open>Ordering, emptiness, sorting\<close>

definition Compare :: "'ns deps \<Rightarrow> 'ns Blob \<Rightarrow> 'ns Blob \<Rightarrow> int" where
  "Compare env b other = ns_Compare env (namespace b) (namespace other)"

definition IsEmpty :: "'ns Blob \<Rightarrow> bool" where
  "IsEmpty b = (len (data b) = 0)"

definition DataLen :: "'ns Blob \<Rightarrow> nat" where
  "DataLen b = len (data b)"

text \<open>
  \<^verbatim>\<open>sort.SliceStable\<close> belongs to the Go library, which sorts blocks of the slice by
  insertion and merges the blocks stably. The model is the insertion sort over the whole
  slice: each element in turn moves left while \<^verbatim>\<open>less\<close> says it is smaller than its
  left neighbour. \<open>insert_left\<close> works on the reversed prefix, whose head is that
  neighbour. For a \<^verbatim>\<open>less\<close> that orders the elements, every stable sort returns the
  same slice (lemma \<open>SliceStable_unique\<close> below).
\<close>

fun insert_left :: "('a \<Rightarrow> 'a \<Rightarrow> bool) \<Rightarrow> 'a \<Rightarrow> 'a list \<Rightarrow> 'a list" where
  "insert_left lt x [] = [x]"
| "insert_left lt x (y # ys) =
     (if lt x y then y # insert_left lt x ys else x # y # ys)"

definition SliceStable :: "('a \<Rightarrow> 'a \<Rightarrow> bool) \<Rightarrow> 'a list \<Rightarrow> 'a list" where
  "SliceStable lt xs = rev (foldl (\<lambda>acc x. insert_left lt x acc) [] xs)"

text \<open>
  \<^verbatim>\<open>SortBlobs\<close> sorts the slice in place; the model returns the slice after the call.
  The elements are the blobs the pointers of the slice point to.
\<close>

definition SortBlobs :: "'ns deps \<Rightarrow> 'ns Blob list \<Rightarrow> 'ns Blob list" where
  "SortBlobs env blobs = SliceStable (\<lambda>bi bj. Compare env bi bj < 0) blobs"

section \<open>Conversion to shares\<close>

text \<open>
  The splitter is a collaborator: its constructor, \<^verbatim>\<open>Write\<close> (which changes the
  splitter and may return an error) and \<^verbatim>\<open>Export\<close> are parameters. A \<^verbatim>\<open>[]Share\<close> is
  nil (\<open>None\<close>) or a present sequence.
\<close>

record ('ns, 'sp, 'sh) splitter =
  NewSparseShareSplitter :: 'sp
  sp_Write :: "'sp \<Rightarrow> 'ns Blob \<Rightarrow> 'sp \<times> error option"
  sp_Export :: "'sp \<Rightarrow> 'sh list option"

definition ToShares ::
  "('ns, 'sp, 'sh) splitter \<Rightarrow> 'ns Blob \<Rightarrow> 'sh list option \<times> error option" where
  "ToShares sp b =
     (case sp_Write sp (NewSparseShareSplitter sp) b of
        (splitter, Some err) \<Rightarrow> (None, Some err)
      | (splitter, None) \<Rightarrow> (sp_Export sp splitter, None))"

section \<open>Properties named by the specification\<close>

text \<open>
  The rules of the validating constructor, in the words of the specification: data is
  non-empty, the namespace is non-empty and of version zero, and the signer matches the
  share version (absent for version 0, exactly \<open>SignerSize\<close> bytes for version 1).
\<close>

definition construction_rules :: "'ns deps \<Rightarrow> 'ns \<Rightarrow> bytes \<Rightarrow> byte \<Rightarrow> bytes \<Rightarrow> bool" where
  "construction_rules env ns dat shareVer sgnr \<longleftrightarrow>
     len dat \<noteq> 0 \<and> \<not> ns_IsEmpty env ns \<and> ns_Version env ns = NamespaceVersionZero \<and>
     ((shareVer = ShareVersionZero \<and> sgnr = None) \<or>
      (shareVer = ShareVersionOne \<and> len sgnr = SignerSize env))"


text \<open>The record that \<^verbatim>\<open>Marshal\<close> and \<^verbatim>\<open>MarshalJSON\<close> fill from a blob.\<close>

definition blob_record :: "'ns deps \<Rightarrow> 'ns Blob \<Rightarrow> BlobProto" where
  "blob_record env b =
     \<lparr>NamespaceId = ns_ID env (namespace b),
      NamespaceVersion = ucast (ns_Version env (namespace b)),
      ShareVersion = ucast (shareVersion b),
      Data = data b,
      Signer = signer b\<rparr>"

text \<open>
  A codec is inverse on a record when it encodes the record without error and decodes
  the bytes back to the same record without error.
\<close>

definition codec_inverse ::
  "(BlobProto \<Rightarrow> bytes \<times> error option) \<Rightarrow> (bytes \<Rightarrow> BlobProto \<times> error option) \<Rightarrow> BlobProto \<Rightarrow> bool" where
  "codec_inverse enc dec pb \<longleftrightarrow> snd (enc pb) = None \<and> dec (fst (enc pb)) = (pb, None)"

text \<open>
  The contract of \<^verbatim>\<open>Namespace.Compare\<close>: a three-way comparison of a total preorder
  (zero on equal namespaces, sign flipped by swapping the arguments, \<open>\<le>\<close> transitive).
\<close>

definition compare_contract :: "'ns deps \<Rightarrow> bool" where
  "compare_contract env \<longleftrightarrow>
     (\<forall>a. ns_Compare env a a = 0) \<and>
     (\<forall>a b. ns_Compare env a b < 0 \<longleftrightarrow> 0 < ns_Compare env b a) \<and>
     (\<forall>a b c. ns_Compare env a b \<le> 0 \<and> ns_Compare env b c \<le> 0 \<longrightarrow> ns_Compare env a c \<le> 0)"

section \<open>A reference instance of the collaborators\<close>

text \<open>
  Modelled from the spec: namespace, codec and splitter are outside blob.go, and the
  specification fixes only their interfaces. The instance below implements these
  interfaces so that the functions above run on concrete inputs: a namespace is its
  version byte followed by its id bytes and namespaces are ordered bytewise; the codec
  writes the five fields of the record in order, each byte sequence behind its length
  (a zero-length sequence decodes as absent), each version in one byte; the splitter
  collects the data of the blobs written to it and refuses a blob without data.
\<close>

definition enc_field :: "bytes \<Rightarrow> byte list" where
  "enc_field bs = (case bs of None \<Rightarrow> [0] | Some xs \<Rightarrow> of_nat (length xs) # xs)"

fun dec_field :: "byte list \<Rightarrow> (bytes \<times> byte list) option" where
  "dec_field [] = None"
| "dec_field (n # rest) =
     (if length rest < unat n then None
      else Some (if n = 0 then None else Some (take (unat n) rest), drop (unat n) rest))"

definition zero_proto :: BlobProto where
  "zero_proto =
     \<lparr>NamespaceId = None, NamespaceVersion = 0, ShareVersion = 0, Data = None, Signer = None\<rparr>"

definition ref_encode :: "BlobProto \<Rightarrow> bytes \<times> error option" where
  "ref_encode pb =
     (if 255 < len (NamespaceId pb) \<or> 255 < len (Data pb) \<or> 255 < len (Signer pb)
         \<or> 255 < NamespaceVersion pb \<or> 255 < ShareVersion pb
      then (None, Some (CollaboratorError ''field too large''))
      else (Some (enc_field (NamespaceId pb)
                  @ [ucast (NamespaceVersion pb), ucast (ShareVersion pb)]
                  @ enc_field (Data pb) @ enc_field (Signer pb)), None))"

definition ref_decode :: "bytes \<Rightarrow> BlobProto \<times> error option" where
  "ref_decode bs =
     (case dec_field (case bs of None \<Rightarrow> [] | Some xs \<Rightarrow> xs) of
        Some (nid, nv # sv # r1) \<Rightarrow>
          (case dec_field r1 of
             Some (dat, r2) \<Rightarrow>
               (case dec_field r2 of
                  Some (sg, []) \<Rightarrow>
                    (\<lparr>NamespaceId = nid, NamespaceVersion = ucast nv, ShareVersion = ucast sv,
                      Data = dat, Signer = sg\<rparr>, None)
                | _ \<Rightarrow> (zero_proto, Some (CollaboratorError ''malformed'')))
           | None \<Rightarrow> (zero_proto, Some (CollaboratorError ''malformed'')))
      | _ \<Rightarrow> (zero_proto, Some (CollaboratorError ''malformed'')))"

definition ref_Compare :: "byte list \<Rightarrow> byte list \<Rightarrow> int" where
  "ref_Compare a b = (if a < b then - 1 else if a = b then 0 else 1)"

definition ref_NewNamespace :: "byte \<Rightarrow> bytes \<Rightarrow> byte list \<times> error option" where
  "ref_NewNamespace v nid =
     (case nid of
        None \<Rightarrow> ([], Some (CollaboratorError ''namespace id missing''))
      | Some xs \<Rightarrow> (v # xs, None))"

definition ref_deps :: "byte list deps" where
  "ref_deps =
     \<lparr>ns_IsEmpty = (\<lambda>n. n = []),
      ns_Version = (\<lambda>n. case n of [] \<Rightarrow> 0 | v # _ \<Rightarrow> v),
      ns_ID = (\<lambda>n. Some (tl n)),
      ns_Compare = ref_Compare,
      NewNamespace = ref_NewNamespace,
      SignerSize = 20,
      proto_Marshal = ref_encode,
      proto_Unmarshal = ref_decode,
      json_Marshal = ref_encode,
      json_Unmarshal = ref_decode\<rparr>"

text \<open>
  Modelled from the spec: the namespace is an external type "with its own validation",
  which blob.go does not spell out. This second instance differs from the first only in
  \<^verbatim>\<open>NewNamespace\<close>, which validates the way the namespace constructor of the repository
  does: the version is 0 or 255, the id has 28 bytes, and the id of a version-0 namespace
  starts with 18 zero bytes.
\<close>

definition strict_NewNamespace :: "byte \<Rightarrow> bytes \<Rightarrow> byte list \<times> error option" where
  "strict_NewNamespace v nid =
     (let xs = (case nid of None \<Rightarrow> [] | Some ys \<Rightarrow> ys) in
      if v \<noteq> 0 \<and> v \<noteq> 255 then ([], Some (CollaboratorError ''unsupported namespace version''))
      else if length xs \<noteq> 28 then
        ([], Some (CollaboratorError ''unsupported namespace id length''))
      else if v = 0 \<and> take 18 xs \<noteq> replicate 18 0 then
        ([], Some (CollaboratorError ''unsupported namespace id with version 0''))
      else (v # xs, None))"

definition strict_deps :: "byte list deps" where
  "strict_deps = ref_deps\<lparr>NewNamespace := strict_NewNamespace\<rparr>"

definition ref_splitter :: "(byte list, bytes list, bytes) splitter" where
  "ref_splitter =
     \<lparr>NewSparseShareSplitter = [],
      sp_Write = (\<lambda>s b. if len (data b) = 0 then (s, Some (CollaboratorError ''blob without data''))
                         else (s @ [data b], None)),
      sp_Export = (\<lambda>s. Some s)\<rparr>"

section \<open>Casts between the version widths, and the shapes of results\<close>

lemmas version_consts = NamespaceVersionZero_def ShareVersionZero_def ShareVersionOne_def

lemma ucast_8_32_8: "(ucast (ucast (x::8 word) :: 32 word) :: 8 word) = x"
  by (rule ucast_up_ucast_id) (simp add: is_up)

lemma unat_byte_less: "unat (x::8 word) < 256"
  using unsigned_less [of x, where ?'a = nat] by simp

lemma unat_ucast_8_32: "unat (ucast (x::8 word) :: 32 word) = unat x"
proof -
  have "unat x < 2 ^ 32" using unat_byte_less [of x] by simp
  then show ?thesis by (simp add: unsigned_ucast_eq take_bit_nat_eq_self)
qed

lemma ucast_8_le_max: "\<not> NamespaceVersionMax < (ucast (x::8 word) :: 32 word)"
  using unat_byte_less [of x]
  by (simp add: NamespaceVersionMax_def word_less_nat_alt unat_ucast_8_32)


text \<open>The two shapes of a result of \<^verbatim>\<open>NewBlob\<close>.\<close>

lemma NewBlob_cases:
  "(\<exists>e. NewBlob env ns dat sv sg = (None, Some e)) \<or>
   (construction_rules env ns dat sv sg \<and>
    NewBlob env ns dat sv sg =
      (Some \<lparr>namespace = ns, data = dat, shareVersion = sv, signer = sg\<rparr>, None))"
  by (simp add: NewBlob_def construction_rules_def version_consts)

lemma NewBlob_Some:
  assumes "NewBlob env ns dat sv sg = (Some b, r)"
  shows "r = None \<and> construction_rules env ns dat sv sg \<and>
         b = \<lparr>namespace = ns, data = dat, shareVersion = sv, signer = sg\<rparr>"
  using assms NewBlob_cases [of env ns dat sv sg] by auto

lemma NewBlobFromProto_cases:
  "(\<exists>e. NewBlobFromProto env pb = (None, Some e)) \<or>
   (\<exists>ns. \<not> NamespaceVersionMax < NamespaceVersion pb \<and> \<not> MaxShareVersion < ShareVersion pb \<and>
      NewNamespace env (ucast (NamespaceVersion pb)) (NamespaceId pb) = (ns, None) \<and>
      construction_rules env ns (Data pb) (ucast (ShareVersion pb)) (Signer pb) \<and>
      NewBlobFromProto env pb =
        (Some \<lparr>namespace = ns, data = Data pb, shareVersion = ucast (ShareVersion pb),
               signer = Signer pb\<rparr>, None))"
proof (cases "NamespaceVersionMax < NamespaceVersion pb \<or> MaxShareVersion < ShareVersion pb")
  case True
  then show ?thesis by (auto simp: NewBlobFromProto_def)
next
  case False
  obtain ns r where nn: "NewNamespace env (ucast (NamespaceVersion pb)) (NamespaceId pb) = (ns, r)"
    by (cases "NewNamespace env (ucast (NamespaceVersion pb)) (NamespaceId pb)")
  show ?thesis
  proof (cases r)
    case (Some err)
    with False nn show ?thesis by (simp add: NewBlobFromProto_def)
  next
    case None
    with False nn have eq: "NewBlobFromProto env pb =
        NewBlob env ns (Data pb) (ucast (ShareVersion pb)) (Signer pb)"
      by (simp add: NewBlobFromProto_def)
    from NewBlob_cases [of env ns "Data pb" "ucast (ShareVersion pb)" "Signer pb"]
    show ?thesis using False nn None eq by auto
  qed
qed

lemma NewBlobFromProto_Some:
  assumes "NewBlobFromProto env pb = (Some b, r)"
  shows "r = None \<and> \<not> NamespaceVersionMax < NamespaceVersion pb \<and>
         \<not> MaxShareVersion < ShareVersion pb \<and>
         NewNamespace env (ucast (NamespaceVersion pb)) (NamespaceId pb) = (namespace b, None) \<and>
         construction_rules env (namespace b) (Data pb) (ucast (ShareVersion pb)) (Signer pb) \<and>
         b = \<lparr>namespace = namespace b, data = Data pb, shareVersion = ucast (ShareVersion pb),
               signer = Signer pb\<rparr>"
  using assms NewBlobFromProto_cases [of env pb] by auto

lemma UnmarshalBlob_Some:
  assumes "UnmarshalBlob env bs = (Some b, r)"
  shows "\<exists>pb. proto_Unmarshal env bs = (pb, None) \<and> NewBlobFromProto env pb = (Some b, None) \<and> r = None"
proof -
  obtain pb e where u: "proto_Unmarshal env bs = (pb, e)"
    by (cases "proto_Unmarshal env bs")
  show ?thesis
  proof (cases e)
    case (Some err)
    with u assms show ?thesis by (simp add: UnmarshalBlob_def)
  next
    case None
    with u assms have "NewBlobFromProto env pb = (Some b, r)" by (simp add: UnmarshalBlob_def)
    with NewBlobFromProto_Some [of env pb b r] u None show ?thesis by simp
  qed
qed

lemma UnmarshalJSON_cases:
  "(\<exists>e. UnmarshalJSON env b bb = (b, Some e)) \<or>
   (\<exists>pb blob. json_Unmarshal env bb = (pb, None) \<and> NewBlobFromProto env pb = (Some blob, None) \<and>
      UnmarshalJSON env b bb = (blob, None))"
proof -
  obtain pb e where u: "json_Unmarshal env bb = (pb, e)"
    by (cases "json_Unmarshal env bb")
  show ?thesis
  proof (cases e)
    case (Some err)
    with u show ?thesis by (simp add: UnmarshalJSON_def)
  next
    case None
    from NewBlobFromProto_cases [of env pb] show ?thesis
      using u None by (auto simp: UnmarshalJSON_def)
  qed
qed



text \<open>The record of a blob that \<^verbatim>\<open>NewBlob\<close> accepted is accepted again.\<close>

lemma record_of_valid_blob:
  assumes nb: "NewBlob env ns dat sv sg = (Some b, None)"
    and nn: "NewNamespace env (ns_Version env ns) (ns_ID env ns) = (ns, None)"
  shows "NewBlobFromProto env (blob_record env b) = (Some b, None)"
proof -
  from NewBlob_Some [OF nb]
  have rules: "construction_rules env ns dat sv sg"
    and b: "b = \<lparr>namespace = ns, data = dat, shareVersion = sv, signer = sg\<rparr>"
    by simp_all
  from rules have "sv = 0 \<or> sv = 1"
    by (auto simp: construction_rules_def version_consts)
  then have sv_range: "\<not> MaxShareVersion < (ucast sv :: 32 word)"
    by (auto simp: MaxShareVersion_def)
  have "NewBlobFromProto env (blob_record env b) = NewBlob env ns dat sv sg"
    using sv_range nn ucast_8_le_max [of "ns_Version env ns"]
    by (simp add: NewBlobFromProto_def blob_record_def b ucast_8_32_8)
  with nb show ?thesis by simp
qed

subsection \<open>The insertion sort behind \<open>SliceStable\<close>\<close>

lemma mset_insert_left: "mset (insert_left lt x ys) = add_mset x (mset ys)"
  by (induction ys) auto

lemma mset_SliceStable: "mset (SliceStable lt xs) = mset xs"
proof -
  have "mset (foldl (\<lambda>acc x. insert_left lt x acc) acc xs) = mset xs + mset acc" for acc
    by (induction xs arbitrary: acc) (auto simp: mset_insert_left)
  then show ?thesis by (simp add: SliceStable_def)
qed

text \<open>
  Stability: elements of a class \<open>P\<close> whose members are never \<open>lt\<close> one another keep
  their order, since an element moving left stops at the first member of its class.
\<close>

lemma filter_insert_left:
  assumes "\<And>a b. P a \<Longrightarrow> P b \<Longrightarrow> \<not> lt a b"
  shows "filter P (insert_left lt x ys) = (if P x then x # filter P ys else filter P ys)"
  using assms by (induction ys) auto

lemma filter_SliceStable:
  assumes "\<And>a b. P a \<Longrightarrow> P b \<Longrightarrow> \<not> lt a b"
  shows "filter P (SliceStable lt xs) = filter P xs"
proof -
  have "filter P (foldl (\<lambda>acc x. insert_left lt x acc) acc xs) = rev (filter P xs) @ filter P acc"
    for acc
    by (induction xs arbitrary: acc) (auto simp: filter_insert_left [of P lt, OF assms])
  then show ?thesis by (simp add: SliceStable_def rev_filter [symmetric])
qed

text \<open>
  Order: when \<open>lt\<close> is asymmetric and its complement transitive, the reversed prefix stays
  descending, so the result is ascending.
\<close>

lemma set_insert_left: "set (insert_left lt x ys) = insert x (set ys)"
  by (induction ys) auto

lemma sorted_insert_left:
  assumes tr: "\<And>a b c. \<not> lt b a \<Longrightarrow> \<not> lt c b \<Longrightarrow> \<not> lt c a"
    and asym: "\<And>a b. lt a b \<Longrightarrow> \<not> lt b a"
    and "sorted_wrt (\<lambda>a b. \<not> lt a b) ys"
  shows "sorted_wrt (\<lambda>a b. \<not> lt a b) (insert_left lt x ys)"
  using assms(3)
proof (induction ys)
  case Nil
  then show ?case by simp
next
  case (Cons y ys)
  show ?case
  proof (cases "lt x y")
    case True
    with Cons asym [of x y] show ?thesis by (auto simp: set_insert_left)
  next
    case False
    with Cons tr [of y _ x] show ?thesis by auto
  qed
qed

lemma sorted_SliceStable:
  assumes tr: "\<And>a b c. \<not> lt b a \<Longrightarrow> \<not> lt c b \<Longrightarrow> \<not> lt c a"
    and asym: "\<And>a b. lt a b \<Longrightarrow> \<not> lt b a"
  shows "sorted_wrt (\<lambda>a b. \<not> lt b a) (SliceStable lt xs)"
proof -
  have "sorted_wrt (\<lambda>a b. \<not> lt a b) (foldl (\<lambda>acc x. insert_left lt x acc) acc xs)"
    if "sorted_wrt (\<lambda>a b. \<not> lt a b) acc" for acc
    using that
  proof (induction xs arbitrary: acc)
    case Nil
    then show ?case by simp
  next
    case (Cons x xs)
    have "sorted_wrt (\<lambda>a b. \<not> lt a b) (insert_left lt x acc)"
    proof (rule sorted_insert_left)
      show "\<not> lt c a" if "\<not> lt b a" "\<not> lt c b" for a b c
        using that by (rule tr)
      show "\<not> lt b a" if "lt a b" for a b
        using that by (rule asym)
      show "sorted_wrt (\<lambda>a b. \<not> lt a b) acc"
        by (fact Cons.prems)
    qed
    then show ?case using Cons.IH by simp
  qed
  then show ?thesis by (simp add: SliceStable_def sorted_wrt_rev)
qed

text \<open>
  The result does not depend on the algorithm: for a \<open>lt\<close> that is asymmetric and whose
  complement is transitive, any two ascending lists with the same elements in the same
  order within each class of mutually incomparable elements are equal. So every stable
  sort of a slice returns what \<open>SliceStable\<close> returns.
\<close>

lemma stable_sorted_unique:
  assumes tr: "\<And>a b c. \<not> lt b a \<Longrightarrow> \<not> lt c b \<Longrightarrow> \<not> lt c a"
    and asym: "\<And>a b. lt a b \<Longrightarrow> \<not> lt b a"
    and "sorted_wrt (\<lambda>a b. \<not> lt b a) xs"
    and "sorted_wrt (\<lambda>a b. \<not> lt b a) ys"
    and "\<And>k. filter (\<lambda>z. \<not> lt z k \<and> \<not> lt k z) xs = filter (\<lambda>z. \<not> lt z k \<and> \<not> lt k z) ys"
  shows "xs = ys"
  using assms(3-5)
proof (induction xs arbitrary: ys)
  case Nil
  show ?case
  proof (cases ys)
    case Nil
    then show ?thesis by simp
  next
    case (Cons y ys')
    have "\<not> lt y y" using asym [of y y] by blast
    with Nil.prems(3) [of y] Cons show ?thesis by simp
  qed
next
  case (Cons x xs)
  have irr: "\<not> lt z z" for z using asym [of z z] by blast
  from Cons.prems(3) [of x] irr [of x]
  have fx: "filter (\<lambda>z. \<not> lt z x \<and> \<not> lt x z) ys = x # filter (\<lambda>z. \<not> lt z x \<and> \<not> lt x z) xs"
    by simp
  then have "x \<in> set (filter (\<lambda>z. \<not> lt z x \<and> \<not> lt x z) ys)"
    by simp
  then have x_in: "x \<in> set ys"
    by simp
  then obtain y ys' where ys: "ys = y # ys'"
    by (cases ys) auto
  have yx: "y = x"
  proof (cases "\<not> lt y x \<and> \<not> lt x y")
    case True
    with fx ys show ?thesis by simp
  next
    case False
    with x_in ys irr [of x] have "x \<in> set ys'" by auto
    with Cons.prems(2) ys have a: "\<not> lt x y" by auto
    from Cons.prems(3) [of y] irr [of y] ys
    have "y \<in> set (filter (\<lambda>z. \<not> lt z y \<and> \<not> lt y z) (x # xs))" by simp
    then have "y \<in> set (x # xs)" by (simp only: set_filter) blast
    with False irr [of x] have "y \<in> set xs" by auto
    with Cons.prems(1) have "\<not> lt y x" by auto
    with a False show ?thesis by simp
  qed
  have tails: "filter (\<lambda>z. \<not> lt z k \<and> \<not> lt k z) xs = filter (\<lambda>z. \<not> lt z k \<and> \<not> lt k z) ys'" for k
    using Cons.prems(3) [of k] ys yx by (simp split: if_splits)
  from Cons.prems(1) have sx: "sorted_wrt (\<lambda>a b. \<not> lt b a) xs" by simp
  from Cons.prems(2) ys have sy: "sorted_wrt (\<lambda>a b. \<not> lt b a) ys'" by simp
  from Cons.IH [OF sx sy tails] ys yx show ?case by simp
qed

lemma SliceStable_unique:
  assumes tr: "\<And>a b c. \<not> lt b a \<Longrightarrow> \<not> lt c b \<Longrightarrow> \<not> lt c a"
    and asym: "\<And>a b. lt a b \<Longrightarrow> \<not> lt b a"
    and sorted: "sorted_wrt (\<lambda>a b. \<not> lt b a) out"
    and stable: "\<And>k. filter (\<lambda>z. \<not> lt z k \<and> \<not> lt k z) out = filter (\<lambda>z. \<not> lt z k \<and> \<not> lt k z) xs"
  shows "out = SliceStable lt xs"
proof (rule stable_sorted_unique [of lt])
  show "\<not> lt c a" if "\<not> lt b a" "\<not> lt c b" for a b c
    using that by (rule tr)
  show "\<not> lt b a" if "lt a b" for a b
    using that by (rule asym)
  show "sorted_wrt (\<lambda>a b. \<not> lt b a) out"
    by (fact sorted)
  show "sorted_wrt (\<lambda>a b. \<not> lt b a) (SliceStable lt xs)"
    using tr asym by (rule sorted_SliceStable)
  show "filter (\<lambda>z. \<not> lt z k \<and> \<not> lt k z) out =
      filter (\<lambda>z. \<not> lt z k \<and> \<not> lt k z) (SliceStable lt xs)" for k
  proof -
    have "filter (\<lambda>z. \<not> lt z k \<and> \<not> lt k z) (SliceStable lt xs) =
        filter (\<lambda>z. \<not> lt z k \<and> \<not> lt k z) xs"
    proof (rule filter_SliceStable)
      show "\<not> lt a b" if "\<not> lt a k \<and> \<not> lt k a" "\<not> lt b k \<and> \<not> lt k b" for a b
        using that tr [of k b a] by blast
    qed
    with stable [of k] show ?thesis by simp
  qed
qed

text \<open>The bytewise order of the reference instance meets the contract.\<close>

lemma ref_compare_contract: "compare_contract ref_deps"
  by (auto simp: compare_contract_def ref_deps_def ref_Compare_def)

section \<open>The claims\<close>

text \<open>
  C1. \<^verbatim>\<open>NewBlob\<close> succeeds exactly when the data is non-empty, the namespace is non-empty
  and of version \<open>NamespaceVersionZero\<close>, and the signer matches the share version (0 or
  1). Failures come in the stated order: empty data first, then an empty namespace, then
  a namespace version other than zero, then the dispatch on the share version, where
  every share version other than 0 and 1 is rejected as unsupported; each failing input
  gets exactly the error of the first check it fails, and no blob.
\<close>

theorem NewBlob_validation:
  "(len dat = 0 \<longrightarrow> NewBlob env ns dat sv sg = (None, Some EmptyDataError)) \<and>
   (len dat \<noteq> 0 \<and> ns_IsEmpty env ns \<longrightarrow>
      NewBlob env ns dat sv sg = (None, Some EmptyNamespaceError)) \<and>
   (len dat \<noteq> 0 \<and> \<not> ns_IsEmpty env ns \<and> ns_Version env ns \<noteq> NamespaceVersionZero \<longrightarrow>
      NewBlob env ns dat sv sg =
        (None, Some (UnsupportedNamespaceVersionError NamespaceVersionZero (ns_Version env ns)))) \<and>
   (len dat \<noteq> 0 \<and> \<not> ns_IsEmpty env ns \<and> ns_Version env ns = NamespaceVersionZero \<longrightarrow>
      (sv = ShareVersionZero \<and> sg \<noteq> None \<longrightarrow> NewBlob env ns dat sv sg = (None, Some SignerNotAllowedError)) \<and>
      (sv = ShareVersionOne \<and> len sg \<noteq> SignerSize env \<longrightarrow>
         NewBlob env ns dat sv sg = (None, Some (SignerSizeError (SignerSize env)))) \<and>
      (sv \<noteq> ShareVersionZero \<and> sv \<noteq> ShareVersionOne \<longrightarrow>
         NewBlob env ns dat sv sg = (None, Some (UnsupportedShareVersionError sv)))) \<and>
   ((\<exists>b. NewBlob env ns dat sv sg = (Some b, None)) \<longleftrightarrow> construction_rules env ns dat sv sg) \<and>
   (construction_rules env ns dat sv sg \<longrightarrow>
      NewBlob env ns dat sv sg =
        (Some \<lparr>namespace = ns, data = dat, shareVersion = sv, signer = sg\<rparr>, None))"
  by (simp add: NewBlob_def construction_rules_def version_consts)

theorem NewBlob_validation_witness:
  "construction_rules ref_deps [0, 7] (Some [1]) ShareVersionZero None \<and>
   NewBlob ref_deps [0, 7] (Some [1]) ShareVersionZero None =
     (Some \<lparr>namespace = [0, 7], data = Some [1], shareVersion = ShareVersionZero,
            signer = None\<rparr>, None) \<and>
   NewBlob ref_deps [0, 7] None ShareVersionZero None = (None, Some EmptyDataError) \<and>
   NewBlob ref_deps [] (Some [1]) ShareVersionZero None = (None, Some EmptyNamespaceError) \<and>
   NewBlob ref_deps [3, 7] (Some [1]) ShareVersionZero None =
     (None, Some (UnsupportedNamespaceVersionError NamespaceVersionZero
                    (ns_Version ref_deps [3, 7]))) \<and>
   ns_Version ref_deps [3, 7] = 3 \<and>
   NewBlob ref_deps [0, 7] (Some [1]) 2 None = (None, Some (UnsupportedShareVersionError 2))"
proof -
  have r: "construction_rules ref_deps [0, 7] (Some [1]) ShareVersionZero None"
    by (simp add: construction_rules_def ref_deps_def len_def version_consts)
  have d: "len None = 0" "len (Some [1::byte]) \<noteq> 0"
    by (simp_all add: len_def)
  have n: "ns_IsEmpty ref_deps []" "\<not> ns_IsEmpty ref_deps [0, 7]" "\<not> ns_IsEmpty ref_deps [3, 7]"
    "ns_Version ref_deps [3, 7] \<noteq> NamespaceVersionZero"
    "ns_Version ref_deps [0, 7] = NamespaceVersionZero"
    by (simp_all add: ref_deps_def version_consts)
  have v: "(2::byte) \<noteq> ShareVersionZero" "(2::byte) \<noteq> ShareVersionOne"
    "ns_Version ref_deps [3, 7] = 3"
    by (simp_all add: ref_deps_def version_consts)
  have ok: "NewBlob ref_deps [0, 7] (Some [1]) ShareVersionZero None =
     (Some \<lparr>namespace = [0, 7], data = Some [1], shareVersion = ShareVersionZero,
            signer = None\<rparr>, None)"
    using r NewBlob_validation [where env = ref_deps and ns = "[0, 7]" and dat = "Some [1]"
        and sv = ShareVersionZero and sg = None]
    by blast
  have e1: "NewBlob ref_deps [0, 7] None ShareVersionZero None = (None, Some EmptyDataError)"
    using d NewBlob_validation [where env = ref_deps and ns = "[0, 7]" and dat = None
        and sv = ShareVersionZero and sg = None]
    by blast
  have e2: "NewBlob ref_deps [] (Some [1]) ShareVersionZero None = (None, Some EmptyNamespaceError)"
    using d n NewBlob_validation [where env = ref_deps and ns = "[]" and dat = "Some [1]"
        and sv = ShareVersionZero and sg = None]
    by blast
  have e3: "NewBlob ref_deps [3, 7] (Some [1]) ShareVersionZero None =
     (None, Some (UnsupportedNamespaceVersionError NamespaceVersionZero
                    (ns_Version ref_deps [3, 7])))"
    using d n NewBlob_validation [where env = ref_deps and ns = "[3, 7]" and dat = "Some [1]"
        and sv = ShareVersionZero and sg = None]
    by blast
  have e4: "NewBlob ref_deps [0, 7] (Some [1]) 2 None =
     (None, Some (UnsupportedShareVersionError 2))"
    using d n v NewBlob_validation [where env = ref_deps and ns = "[0, 7]" and dat = "Some [1]"
        and sv = 2 and sg = None]
    by blast
  from r ok e1 e2 e3 v(3) e4 show ?thesis by blast
qed

text \<open>
  C2, as amended. A blob that \<^verbatim>\<open>NewBlob\<close> returned, and whose namespace \<^verbatim>\<open>NewNamespace\<close>
  builds again from its version and id, is reproduced field for field by
  \<^verbatim>\<open>UnmarshalBlob\<close> from the bytes of \<^verbatim>\<open>Marshal\<close>, and by \<^verbatim>\<open>UnmarshalJSON\<close> (into any
  receiver) from the bytes of \<^verbatim>\<open>MarshalJSON\<close>. Each encoding needs only its own codec,
  which is taken to encode the record of the blob without error and to decode the bytes
  back to that record. The condition on the namespace is needed: \<^verbatim>\<open>NewBlob\<close> checks only
  that the namespace is non-empty and of version zero, while decoding goes through
  \<^verbatim>\<open>NewNamespace\<close> (see the counterexample below).
\<close>

theorem marshal_roundtrip:
  assumes "NewBlob env ns dat sv sg = (Some b, None)"
    and "NewNamespace env (ns_Version env ns) (ns_ID env ns) = (ns, None)"
  shows "(codec_inverse (proto_Marshal env) (proto_Unmarshal env) (blob_record env b) \<longrightarrow>
            snd (Marshal env b) = None \<and>
            UnmarshalBlob env (fst (Marshal env b)) = (Some b, None)) \<and>
         (codec_inverse (json_Marshal env) (json_Unmarshal env) (blob_record env b) \<longrightarrow>
            snd (MarshalJSON env b) = None \<and>
            UnmarshalJSON env b0 (fst (MarshalJSON env b)) = (b, None))"
proof -
  have m: "Marshal env b = proto_Marshal env (blob_record env b)"
    by (simp add: Marshal_def blob_record_def)
  have mj: "MarshalJSON env b = json_Marshal env (blob_record env b)"
    by (simp add: MarshalJSON_def blob_record_def)
  note r = record_of_valid_blob [OF assms]
  have bin: "snd (Marshal env b) = None \<and>
            UnmarshalBlob env (fst (Marshal env b)) = (Some b, None)"
    if "codec_inverse (proto_Marshal env) (proto_Unmarshal env) (blob_record env b)"
    using that r by (simp add: codec_inverse_def m UnmarshalBlob_def)
  have js: "snd (MarshalJSON env b) = None \<and>
            UnmarshalJSON env b0 (fst (MarshalJSON env b)) = (b, None)"
    if "codec_inverse (json_Marshal env) (json_Unmarshal env) (blob_record env b)"
    using that r by (simp add: codec_inverse_def mj UnmarshalJSON_def)
  from bin js show ?thesis by blast
qed

theorem marshal_roundtrip_witness:
  "NewBlob strict_deps (0 # replicate 18 0 @ replicate 10 7) (Some [1, 2]) 1
       (Some (replicate 20 5)) =
     (Some \<lparr>namespace = 0 # replicate 18 0 @ replicate 10 7, data = Some [1, 2],
            shareVersion = 1, signer = Some (replicate 20 5)\<rparr>, None) \<and>
   UnmarshalBlob strict_deps
       (fst (Marshal strict_deps
          \<lparr>namespace = 0 # replicate 18 0 @ replicate 10 7, data = Some [1, 2],
           shareVersion = 1, signer = Some (replicate 20 5)\<rparr>)) =
     (Some \<lparr>namespace = 0 # replicate 18 0 @ replicate 10 7, data = Some [1, 2],
            shareVersion = 1, signer = Some (replicate 20 5)\<rparr>, None) \<and>
   UnmarshalJSON strict_deps \<lparr>namespace = [], data = None, shareVersion = 0, signer = None\<rparr>
       (fst (MarshalJSON strict_deps
          \<lparr>namespace = 0 # replicate 18 0 @ replicate 10 7, data = Some [1, 2],
           shareVersion = 1, signer = Some (replicate 20 5)\<rparr>)) =
     (\<lparr>namespace = 0 # replicate 18 0 @ replicate 10 7, data = Some [1, 2],
       shareVersion = 1, signer = Some (replicate 20 5)\<rparr>, None)"
proof -
  let ?ns = "0 # replicate 18 0 @ replicate 10 (7::byte)"
  let ?b = "\<lparr>namespace = ?ns, data = Some [1, 2], shareVersion = 1,
      signer = Some (replicate 20 (5::byte))\<rparr>"
  let ?pb = "\<lparr>NamespaceId = Some (replicate 18 0 @ replicate 10 7), NamespaceVersion = 0,
      ShareVersion = 1, Data = Some [1, 2], Signer = Some (replicate 20 5)\<rparr>"
  let ?w = "Some (28 # (replicate 18 0 @ replicate 10 7) @ [0, 1, 2, 1, 2, 20] @ replicate 20 (5::byte))"
  have nb: "NewBlob strict_deps ?ns (Some [1, 2]) 1 (Some (replicate 20 5)) = (Some ?b, None)"
    by (simp add: NewBlob_def strict_deps_def ref_deps_def len_def version_consts)
  have sn: "strict_NewNamespace 0 (Some (replicate 18 0 @ replicate 10 7)) = (?ns, None)"
    by code_simp
  have nn: "NewNamespace strict_deps (ns_Version strict_deps ?ns) (ns_ID strict_deps ?ns)
      = (?ns, None)"
    using sn by (simp add: strict_deps_def ref_deps_def)
  have rec: "blob_record strict_deps ?b = ?pb"
    by (simp add: blob_record_def strict_deps_def ref_deps_def)
  have enc: "ref_encode ?pb = (?w, None)"
    by (simp add: ref_encode_def enc_field_def len_def)
  have dec: "ref_decode ?w = (?pb, None)"
    by (simp add: ref_decode_def)
  have c: "proto_Marshal strict_deps = ref_encode" "proto_Unmarshal strict_deps = ref_decode"
    "json_Marshal strict_deps = ref_encode" "json_Unmarshal strict_deps = ref_decode"
    by (simp_all add: strict_deps_def ref_deps_def)
  have inv: "codec_inverse (proto_Marshal strict_deps) (proto_Unmarshal strict_deps)
      (blob_record strict_deps ?b)"
    "codec_inverse (json_Marshal strict_deps) (json_Unmarshal strict_deps)
      (blob_record strict_deps ?b)"
    unfolding rec c codec_inverse_def using enc dec by simp_all
  note t = marshal_roundtrip [OF nb nn,
      where ?b0.0 = "\<lparr>namespace = [], data = None, shareVersion = 0, signer = None\<rparr>"]
  from t inv have
    "UnmarshalBlob strict_deps (fst (Marshal strict_deps ?b)) = (Some ?b, None)"
    "UnmarshalJSON strict_deps \<lparr>namespace = [], data = None, shareVersion = 0, signer = None\<rparr>
       (fst (MarshalJSON strict_deps ?b)) = (?b, None)"
    by blast+
  with nb show ?thesis by blast
qed

text \<open>
  C2 as stated fails. With the namespace constructor that validates the id, the
  namespace of version 0 whose 28 id bytes are all 1 is non-empty and of version zero, so
  \<^verbatim>\<open>NewBlob\<close> accepts a blob over it and both marshal functions encode it; decoding the
  bytes fails in \<^verbatim>\<open>NewNamespace\<close>, for both encodings, although the codec returns the
  very record that was encoded.
\<close>

theorem marshal_roundtrip_counterexample:
  "NewBlob strict_deps (0 # replicate 28 1) (Some [1, 2]) 0 None =
     (Some \<lparr>namespace = 0 # replicate 28 1, data = Some [1, 2], shareVersion = 0,
            signer = None\<rparr>, None) \<and>
   Marshal strict_deps
     \<lparr>namespace = 0 # replicate 28 1, data = Some [1, 2], shareVersion = 0, signer = None\<rparr> =
     (Some (28 # replicate 28 1 @ [0, 0, 2, 1, 2, 0]), None) \<and>
   UnmarshalBlob strict_deps (Some (28 # replicate 28 1 @ [0, 0, 2, 1, 2, 0])) =
     (None, Some (InvalidNamespaceError
                    (CollaboratorError ''unsupported namespace id with version 0''))) \<and>
   MarshalJSON strict_deps
     \<lparr>namespace = 0 # replicate 28 1, data = Some [1, 2], shareVersion = 0, signer = None\<rparr> =
     (Some (28 # replicate 28 1 @ [0, 0, 2, 1, 2, 0]), None) \<and>
   UnmarshalJSON strict_deps
     \<lparr>namespace = [], data = None, shareVersion = 0, signer = None\<rparr>
     (Some (28 # replicate 28 1 @ [0, 0, 2, 1, 2, 0])) =
     (\<lparr>namespace = [], data = None, shareVersion = 0, signer = None\<rparr>,
      Some (InvalidNamespaceError
              (CollaboratorError ''unsupported namespace id with version 0'')))"
proof -
  let ?ns = "0 # replicate 28 (1::byte)"
  let ?b = "\<lparr>namespace = ?ns, data = Some [1, 2], shareVersion = 0, signer = None\<rparr>"
  let ?w = "Some (28 # replicate 28 (1::byte) @ [0, 0, 2, 1, 2, 0])"
  let ?pb = "\<lparr>NamespaceId = Some (replicate 28 1), NamespaceVersion = 0, ShareVersion = 0,
      Data = Some [1, 2], Signer = None\<rparr>"
  have nb: "NewBlob strict_deps ?ns (Some [1, 2]) 0 None = (Some ?b, None)"
    by (simp add: NewBlob_def strict_deps_def ref_deps_def len_def version_consts)
  have enc: "ref_encode ?pb = (?w, None)"
    by (simp add: ref_encode_def enc_field_def len_def)
  have m: "Marshal strict_deps ?b = (?w, None)" "MarshalJSON strict_deps ?b = (?w, None)"
    using enc by (simp_all add: Marshal_def MarshalJSON_def strict_deps_def ref_deps_def)
  have dec: "ref_decode ?w = (?pb, None)"
    by (simp add: ref_decode_def)
  have nn: "strict_NewNamespace 0 (Some (replicate 28 1)) =
      ([], Some (CollaboratorError ''unsupported namespace id with version 0''))"
    by code_simp
  have fp: "NewBlobFromProto strict_deps ?pb =
      (None, Some (InvalidNamespaceError
                     (CollaboratorError ''unsupported namespace id with version 0'')))"
    using nn by (simp add: NewBlobFromProto_def NamespaceVersionMax_def MaxShareVersion_def
        strict_deps_def ref_deps_def)
  have ub: "UnmarshalBlob strict_deps ?w =
      (None, Some (InvalidNamespaceError
                     (CollaboratorError ''unsupported namespace id with version 0'')))"
    using dec fp by (simp add: UnmarshalBlob_def strict_deps_def ref_deps_def)
  have uj: "UnmarshalJSON strict_deps
      \<lparr>namespace = [], data = None, shareVersion = 0, signer = None\<rparr> ?w =
      (\<lparr>namespace = [], data = None, shareVersion = 0, signer = None\<rparr>,
       Some (InvalidNamespaceError
               (CollaboratorError ''unsupported namespace id with version 0'')))"
    using dec fp by (simp add: UnmarshalJSON_def strict_deps_def ref_deps_def)
  from nb m ub uj show ?thesis by blast
qed



text \<open>
  C4. \<^verbatim>\<open>NewBlobFromProto\<close> runs two range checks before the validating constructor: a
  namespace version field above \<open>NamespaceVersionMax\<close> fails with the namespace-version
  range error, and a share version field above \<open>MaxShareVersion\<close> fails with the
  share-version range error (the namespace-version check is the first of the two, so it
  names the error when both fields are out of range). Only a record that passes both,
  and whose namespace is built, reaches \<^verbatim>\<open>NewBlob\<close>; the range errors are none of the
  errors \<^verbatim>\<open>NewBlob\<close> returns, and they are returned whatever the other fields hold.
\<close>

theorem range_checks_first:
  "(NamespaceVersionMax < NamespaceVersion pb \<longrightarrow>
      NewBlobFromProto env pb = (None, Some NamespaceVersionRangeError)) \<and>
   (MaxShareVersion < ShareVersion pb \<longrightarrow>
      NewBlobFromProto env pb =
        (None, Some (if NamespaceVersionMax < NamespaceVersion pb then NamespaceVersionRangeError
                     else ShareVersionRangeError (unat MaxShareVersion)))) \<and>
   (\<not> NamespaceVersionMax < NamespaceVersion pb \<and> \<not> MaxShareVersion < ShareVersion pb \<and>
    NewNamespace env (ucast (NamespaceVersion pb)) (NamespaceId pb) = (ns, None) \<longrightarrow>
      NewBlobFromProto env pb = NewBlob env ns (Data pb) (ucast (ShareVersion pb)) (Signer pb)) \<and>
   snd (NewBlob env ns' dat sv sg) \<noteq> Some NamespaceVersionRangeError \<and>
   snd (NewBlob env ns' dat sv sg) \<noteq> Some (ShareVersionRangeError n)"
proof -
  have d: "snd (NewBlob env ns' dat sv sg) \<noteq> Some NamespaceVersionRangeError \<and>
           snd (NewBlob env ns' dat sv sg) \<noteq> Some (ShareVersionRangeError n)"
    by (simp add: NewBlob_def)
  then show ?thesis by (simp add: NewBlobFromProto_def)
qed

theorem range_checks_first_witness:
  "NewBlobFromProto ref_deps
     \<lparr>NamespaceId = Some [7], NamespaceVersion = 256, ShareVersion = 0, Data = None,
      Signer = None\<rparr> = (None, Some NamespaceVersionRangeError) \<and>
   NewBlobFromProto ref_deps
     \<lparr>NamespaceId = Some [7], NamespaceVersion = 0, ShareVersion = 128, Data = None,
      Signer = None\<rparr> = (None, Some (ShareVersionRangeError 127)) \<and>
   NewBlobFromProto ref_deps
     \<lparr>NamespaceId = Some [7], NamespaceVersion = 0, ShareVersion = 2, Data = Some [1],
      Signer = None\<rparr> = (None, Some (UnsupportedShareVersionError 2))"
proof -
  have a: "NamespaceVersionMax < NamespaceVersion
     \<lparr>NamespaceId = Some [7], NamespaceVersion = 256, ShareVersion = 0, Data = None,
      Signer = None\<rparr>"
    by (simp add: NamespaceVersionMax_def)
  have b: "MaxShareVersion < ShareVersion
     \<lparr>NamespaceId = Some [7], NamespaceVersion = 0, ShareVersion = 128, Data = None,
      Signer = None\<rparr>"
    "\<not> NamespaceVersionMax < NamespaceVersion
     \<lparr>NamespaceId = Some [7], NamespaceVersion = 0, ShareVersion = 128, Data = None,
      Signer = None\<rparr>"
    "unat MaxShareVersion = 127"
    by (simp_all add: NamespaceVersionMax_def MaxShareVersion_def)
  have c: "\<not> NamespaceVersionMax < NamespaceVersion
     \<lparr>NamespaceId = Some [7], NamespaceVersion = 0, ShareVersion = 2, Data = Some [1],
      Signer = None\<rparr>"
    "\<not> MaxShareVersion < ShareVersion
     \<lparr>NamespaceId = Some [7], NamespaceVersion = 0, ShareVersion = 2, Data = Some [1],
      Signer = None\<rparr>"
    "NewNamespace ref_deps (ucast (NamespaceVersion
     \<lparr>NamespaceId = Some [7], NamespaceVersion = 0, ShareVersion = 2, Data = Some [1],
      Signer = None\<rparr>)) (NamespaceId
     \<lparr>NamespaceId = Some [7], NamespaceVersion = 0, ShareVersion = 2, Data = Some [1],
      Signer = None\<rparr>) = ([0, 7], None)"
    by (simp_all add: NamespaceVersionMax_def MaxShareVersion_def ref_deps_def ref_NewNamespace_def)
  have nb: "NewBlob ref_deps [0, 7] (Some [1]) 2 None = (None, Some (UnsupportedShareVersionError 2))"
    by (simp add: NewBlob_def ref_deps_def len_def version_consts)
  have r1: "NewBlobFromProto ref_deps
     \<lparr>NamespaceId = Some [7], NamespaceVersion = 256, ShareVersion = 0, Data = None,
      Signer = None\<rparr> = (None, Some NamespaceVersionRangeError)"
    using a range_checks_first [where env = ref_deps and pb = "\<lparr>NamespaceId = Some [7],
      NamespaceVersion = 256, ShareVersion = 0, Data = None, Signer = None\<rparr>",
      THEN conjunct1]
    by simp
  have r2: "NewBlobFromProto ref_deps
     \<lparr>NamespaceId = Some [7], NamespaceVersion = 0, ShareVersion = 128, Data = None,
      Signer = None\<rparr> = (None, Some (ShareVersionRangeError 127))"
    using b range_checks_first [where env = ref_deps and pb = "\<lparr>NamespaceId = Some [7],
      NamespaceVersion = 0, ShareVersion = 128, Data = None, Signer = None\<rparr>",
      THEN conjunct2, THEN conjunct1]
    by simp
  have r3: "NewBlobFromProto ref_deps
     \<lparr>NamespaceId = Some [7], NamespaceVersion = 0, ShareVersion = 2, Data = Some [1],
      Signer = None\<rparr> = (None, Some (UnsupportedShareVersionError 2))"
    using c nb range_checks_first [where env = ref_deps and ns = "[0, 7]"
      and pb = "\<lparr>NamespaceId = Some [7],
      NamespaceVersion = 0, ShareVersion = 2, Data = Some [1], Signer = None\<rparr>",
      THEN conjunct2, THEN conjunct2, THEN conjunct1]
    by simp
  from r1 r2 r3 show ?thesis by simp
qed

text \<open>
  C5. With non-empty data and a non-empty namespace of version zero: share version 0
  succeeds if and only if the signer is nil, and a present signer, also one of length
  zero, is refused with \<open>SignerNotAllowedError\<close>; share version 1 succeeds if and only
  if the signer has exactly \<open>SignerSize\<close> bytes, and every other length is refused with
  \<open>SignerSizeError\<close>.
\<close>

theorem signer_dispatch:
  assumes "len dat \<noteq> 0" and "\<not> ns_IsEmpty env ns" and "ns_Version env ns = NamespaceVersionZero"
  shows "((\<exists>b. NewBlob env ns dat ShareVersionZero sg = (Some b, None)) \<longleftrightarrow> sg = None) \<and>
         (sg \<noteq> None \<longrightarrow> NewBlob env ns dat ShareVersionZero sg = (None, Some SignerNotAllowedError)) \<and>
         NewBlob env ns dat ShareVersionZero (Some []) = (None, Some SignerNotAllowedError) \<and>
         ((\<exists>b. NewBlob env ns dat ShareVersionOne sg = (Some b, None)) \<longleftrightarrow> len sg = SignerSize env) \<and>
         (len sg \<noteq> SignerSize env \<longrightarrow>
            NewBlob env ns dat ShareVersionOne sg = (None, Some (SignerSizeError (SignerSize env))))"
  using assms by (simp add: NewBlob_def version_consts)

theorem signer_dispatch_witness:
  "NewBlob ref_deps [0, 7] (Some [1]) ShareVersionZero (Some []) = (None, Some SignerNotAllowedError) \<and>
   (\<exists>b. NewBlob ref_deps [0, 7] (Some [1]) ShareVersionZero None = (Some b, None)) \<and>
   (\<exists>b. NewBlob ref_deps [0, 7] (Some [1]) ShareVersionOne (Some (replicate 20 9)) = (Some b, None)) \<and>
   NewBlob ref_deps [0, 7] (Some [1]) ShareVersionOne (Some (replicate 19 9)) =
     (None, Some (SignerSizeError 20))"
proof -
  have h: "len (Some [1::byte]) \<noteq> 0" "\<not> ns_IsEmpty ref_deps [0, 7]"
    "ns_Version ref_deps [0, 7] = NamespaceVersionZero"
    by (simp_all add: len_def ref_deps_def version_consts)
  have s: "len (Some (replicate 20 (9::byte))) = SignerSize ref_deps"
    "len (Some (replicate 19 (9::byte))) \<noteq> SignerSize ref_deps" "SignerSize ref_deps = 20"
    by (simp_all add: len_def ref_deps_def)
  show ?thesis
    using s signer_dispatch [OF h, of None] signer_dispatch [OF h, of "Some (replicate 20 9)"]
      signer_dispatch [OF h, of "Some (replicate 19 9)"]
    by simp
qed

text \<open>
  C6. \<^verbatim>\<open>Compare\<close> is the comparison of the two namespaces, so blobs of equal namespace
  compare alike whatever their data, share version and signer, and compare equal.
  \<^verbatim>\<open>SortBlobs\<close> is a stable sort under it: the result is a permutation of the input,
  non-decreasing by namespace, and the blobs of each namespace (more generally, the blobs
  comparing equal to a given blob) stay in their original order. Order and stability
  rest on the contract of \<^verbatim>\<open>Namespace.Compare\<close>.
\<close>

theorem SortBlobs_stable:
  "Compare env a b = ns_Compare env (namespace a) (namespace b) \<and>
   (namespace a = namespace b \<longrightarrow>
      Compare env a c = Compare env b c \<and> Compare env c a = Compare env c b) \<and>
   mset (SortBlobs env blobs) = mset blobs \<and>
   (compare_contract env \<longrightarrow>
      (namespace a = namespace b \<longrightarrow> Compare env a b = 0) \<and>
      sorted_wrt (\<lambda>x y. Compare env x y \<le> 0) (SortBlobs env blobs) \<and>
      filter (\<lambda>x. namespace x = n) (SortBlobs env blobs) = filter (\<lambda>x. namespace x = n) blobs \<and>
      filter (\<lambda>x. Compare env x k = 0) (SortBlobs env blobs) =
        filter (\<lambda>x. Compare env x k = 0) blobs)"
proof -
  let ?lt = "\<lambda>bi bj. Compare env bi bj < 0"
  have perm: "mset (SortBlobs env blobs) = mset blobs"
    by (simp add: SortBlobs_def mset_SliceStable)
  have under: "(namespace a = namespace b \<longrightarrow> Compare env a b = 0) \<and>
      sorted_wrt (\<lambda>x y. Compare env x y \<le> 0) (SortBlobs env blobs) \<and>
      filter (\<lambda>x. namespace x = n) (SortBlobs env blobs) = filter (\<lambda>x. namespace x = n) blobs \<and>
      filter (\<lambda>x. Compare env x k = 0) (SortBlobs env blobs) =
        filter (\<lambda>x. Compare env x k = 0) blobs"
    if ct: "compare_contract env"
  proof -
    from ct have refl: "ns_Compare env x x = 0" for x
      by (simp add: compare_contract_def)
    from ct have flip: "ns_Compare env x y < 0 \<longleftrightarrow> 0 < ns_Compare env y x" for x y
      by (simp add: compare_contract_def)
    from ct have trans: "ns_Compare env x y \<le> 0 \<Longrightarrow> ns_Compare env y z \<le> 0 \<Longrightarrow>
        ns_Compare env x z \<le> 0" for x y z
      unfolding compare_contract_def by blast
    have le_iff: "\<not> ?lt y x \<longleftrightarrow> Compare env x y \<le> 0" for x y
      using flip [of "namespace y" "namespace x"] by (auto simp: Compare_def)
    have tr: "\<not> ?lt y x \<Longrightarrow> \<not> ?lt z y \<Longrightarrow> \<not> ?lt z x" for x y z
      unfolding le_iff using trans [of "namespace x" "namespace y" "namespace z"]
      by (simp add: Compare_def)
    have asym: "?lt x y \<Longrightarrow> \<not> ?lt y x" for x y
      using flip [of "namespace x" "namespace y"] by (simp add: Compare_def)
    have "sorted_wrt (\<lambda>x y. \<not> ?lt y x) (SliceStable ?lt blobs)"
      using tr asym by (rule sorted_SliceStable)
    then have ord: "sorted_wrt (\<lambda>x y. Compare env x y \<le> 0) (SortBlobs env blobs)"
      by (simp add: le_iff SortBlobs_def)
    have same_ns: "filter (\<lambda>x. namespace x = n) (SortBlobs env blobs) =
        filter (\<lambda>x. namespace x = n) blobs"
      unfolding SortBlobs_def
      by (rule filter_SliceStable) (simp add: Compare_def refl)
    have eq_class: "\<not> ?lt x y" if "Compare env x k = 0" "Compare env y k = 0" for x y
    proof -
      from that(1) have xk: "ns_Compare env (namespace k) (namespace x) \<le> 0"
        using flip [of "namespace x" "namespace k"] by (simp add: Compare_def)
      from that(2) have yk: "ns_Compare env (namespace y) (namespace k) \<le> 0"
        by (simp add: Compare_def)
      from trans [OF yk xk] show ?thesis
        using flip [of "namespace x" "namespace y"] by (simp add: Compare_def)
    qed
    have same_cmp: "filter (\<lambda>x. Compare env x k = 0) (SortBlobs env blobs) =
        filter (\<lambda>x. Compare env x k = 0) blobs"
      unfolding SortBlobs_def
      by (rule filter_SliceStable) (rule eq_class)
    from refl ord same_ns same_cmp show ?thesis by (simp add: Compare_def)
  qed
  from perm under show ?thesis by (simp add: Compare_def)
qed

theorem SortBlobs_stable_witness:
  "compare_contract ref_deps \<and>
   SortBlobs ref_deps
     [\<lparr>namespace = [0, 7, 7], data = Some [1, 2], shareVersion = 0, signer = None\<rparr>,
      \<lparr>namespace = [0, 7], data = Some [1, 2], shareVersion = 0, signer = None\<rparr>,
      \<lparr>namespace = [0, 7, 7], data = Some [3], shareVersion = 0, signer = None\<rparr>] =
     [\<lparr>namespace = [0, 7], data = Some [1, 2], shareVersion = 0, signer = None\<rparr>,
      \<lparr>namespace = [0, 7, 7], data = Some [1, 2], shareVersion = 0, signer = None\<rparr>,
      \<lparr>namespace = [0, 7, 7], data = Some [3], shareVersion = 0, signer = None\<rparr>] \<and>
   filter (\<lambda>x. namespace x = [0, 7, 7])
     (SortBlobs ref_deps
       [\<lparr>namespace = [0, 7, 7], data = Some [1, 2], shareVersion = 0, signer = None\<rparr>,
        \<lparr>namespace = [0, 7], data = Some [1, 2], shareVersion = 0, signer = None\<rparr>,
        \<lparr>namespace = [0, 7, 7], data = Some [3], shareVersion = 0, signer = None\<rparr>]) =
     [\<lparr>namespace = [0, 7, 7], data = Some [1, 2], shareVersion = 0, signer = None\<rparr>,
      \<lparr>namespace = [0, 7, 7], data = Some [3], shareVersion = 0, signer = None\<rparr>] \<and>
   sorted_wrt (\<lambda>x y. Compare ref_deps x y \<le> 0)
     (SortBlobs ref_deps
       [\<lparr>namespace = [0, 7, 7], data = Some [1, 2], shareVersion = 0, signer = None\<rparr>,
        \<lparr>namespace = [0, 7], data = Some [1, 2], shareVersion = 0, signer = None\<rparr>,
        \<lparr>namespace = [0, 7, 7], data = Some [3], shareVersion = 0, signer = None\<rparr>])"
proof -
  let ?bs = "[\<lparr>namespace = [0, 7, 7], data = Some [1, 2], shareVersion = 0, signer = None\<rparr>,
      \<lparr>namespace = [0, 7], data = Some [1, 2], shareVersion = 0, signer = None\<rparr>,
      \<lparr>namespace = [0, 7, 7 :: byte], data = Some [3], shareVersion = 0, signer = None\<rparr>]"
  have ev: "SortBlobs ref_deps ?bs =
     [\<lparr>namespace = [0, 7], data = Some [1, 2], shareVersion = 0, signer = None\<rparr>,
      \<lparr>namespace = [0, 7, 7], data = Some [1, 2], shareVersion = 0, signer = None\<rparr>,
      \<lparr>namespace = [0, 7, 7], data = Some [3], shareVersion = 0, signer = None\<rparr>]"
    by (simp add: SortBlobs_def SliceStable_def Compare_def ref_deps_def ref_Compare_def)
  have ct: "compare_contract ref_deps"
    by (rule ref_compare_contract)
  note t = SortBlobs_stable [where env = ref_deps and blobs = ?bs and n = "[0, 7, 7]",
      THEN conjunct2, THEN conjunct2, THEN conjunct2, THEN mp, OF ct]
  from t have f: "filter (\<lambda>x. namespace x = [0, 7, 7]) (SortBlobs ref_deps ?bs) =
      filter (\<lambda>x. namespace x = [0, 7, 7]) ?bs"
    and o: "sorted_wrt (\<lambda>x y. Compare ref_deps x y \<le> 0) (SortBlobs ref_deps ?bs)"
    by blast+
  from f have f': "filter (\<lambda>x. namespace x = [0, 7, 7]) (SortBlobs ref_deps ?bs) =
     [\<lparr>namespace = [0, 7, 7], data = Some [1, 2], shareVersion = 0, signer = None\<rparr>,
      \<lparr>namespace = [0, 7, 7], data = Some [3], shareVersion = 0, signer = None\<rparr>]"
    by simp
  from ct ev f' o show ?thesis by blast
qed

text \<open>
  C7. \<^verbatim>\<open>IsEmpty\<close> is true exactly when the data has length zero. It is false for every
  blob that \<^verbatim>\<open>NewBlob\<close>, \<^verbatim>\<open>NewV0Blob\<close>, \<^verbatim>\<open>NewV1Blob\<close>, \<^verbatim>\<open>UnmarshalBlob\<close> or
  \<^verbatim>\<open>UnmarshalJSON\<close> returns without error, and true for the zero value of the struct.
\<close>

theorem IsEmpty_data:
  fixes env :: "'ns deps"
  shows
  "(IsEmpty b \<longleftrightarrow> len (data b) = 0) \<and>
   (NewBlob env ns dat sv sg = (Some b1, None) \<longrightarrow> \<not> IsEmpty b1) \<and>
   (NewV0Blob env ns dat = (Some b2, None) \<longrightarrow> \<not> IsEmpty b2) \<and>
   (NewV1Blob env ns dat sg = (Some b3, None) \<longrightarrow> \<not> IsEmpty b3) \<and>
   (UnmarshalBlob env bs = (Some b4, None) \<longrightarrow> \<not> IsEmpty b4) \<and>
   (UnmarshalJSON env b0 bs = (b5, None) \<longrightarrow> \<not> IsEmpty b5) \<and>
   IsEmpty \<lparr>namespace = ns0, data = None, shareVersion = 0, signer = None\<rparr>"
proof -
  have nb: "\<not> IsEmpty x" if "NewBlob env n d v s = (Some x, None)" for n d v s and x :: "'ns Blob"
    using NewBlob_Some [OF that] by (simp add: IsEmpty_def construction_rules_def)
  have fp: "\<not> IsEmpty x" if "NewBlobFromProto env pb = (Some x, None)" for pb and x :: "'ns Blob"
  proof -
    from NewBlobFromProto_Some [OF that]
    have "construction_rules env (namespace x) (Data pb) (ucast (ShareVersion pb)) (Signer pb)"
      and "data x = Data pb"
      by (simp, metis Blob.select_convs(2))
    then show ?thesis by (simp add: IsEmpty_def construction_rules_def)
  qed
  have ub: "UnmarshalBlob env bs = (Some b4, None) \<longrightarrow> \<not> IsEmpty b4"
    using UnmarshalBlob_Some [of env bs b4 None] fp by blast
  have uj: "UnmarshalJSON env b0 bs = (b5, None) \<longrightarrow> \<not> IsEmpty b5"
    using UnmarshalJSON_cases [of env b0 bs] fp by auto
  show ?thesis
    using nb ub uj by (auto simp: NewV0Blob_def NewV1Blob_def IsEmpty_def len_def)
qed

theorem IsEmpty_data_witness:
  "\<not> IsEmpty \<lparr>namespace = [0, 7 :: byte], data = Some [1], shareVersion = 0, signer = None\<rparr> \<and>
   NewBlob ref_deps [0, 7] (Some [1]) 0 None =
     (Some \<lparr>namespace = [0, 7], data = Some [1], shareVersion = 0, signer = None\<rparr>, None)"
proof -
  have h: "NewBlob ref_deps [0, 7] (Some [1]) 0 None =
     (Some \<lparr>namespace = [0, 7], data = Some [1], shareVersion = 0, signer = None\<rparr>, None)"
    by (simp add: NewBlob_def ref_deps_def len_def version_consts)
  show ?thesis
    using h IsEmpty_data [where env = ref_deps and ns = "[0, 7]" and dat = "Some [1]" and sv = 0
        and sg = None
        and ?b1.0 = "\<lparr>namespace = [0, 7], data = Some [1], shareVersion = 0, signer = None\<rparr>",
        THEN conjunct2, THEN conjunct1]
    by simp
qed

text \<open>
  C8. \<^verbatim>\<open>ToShares\<close> makes a new splitter, writes the receiver blob to it, and then either
  returns the error of \<^verbatim>\<open>Write\<close> as it is, with the nil share sequence, or returns what
  \<^verbatim>\<open>Export\<close> gives for the splitter after the write, with no error.
\<close>

theorem ToShares_contract:
  "(sp_Write sp (NewSparseShareSplitter sp) b = (s, Some e) \<longrightarrow>
      ToShares sp b = (None, Some e)) \<and>
   (sp_Write sp (NewSparseShareSplitter sp) b = (s, None) \<longrightarrow>
      ToShares sp b = (sp_Export sp s, None))"
  by (simp add: ToShares_def)

theorem ToShares_contract_witness:
  "ToShares ref_splitter \<lparr>namespace = [0, 7], data = Some [1, 2], shareVersion = 0, signer = None\<rparr>
     = (Some [Some [1, 2]], None) \<and>
   ToShares ref_splitter \<lparr>namespace = [0, 7], data = None, shareVersion = 0, signer = None\<rparr>
     = (None, Some (CollaboratorError ''blob without data''))"
proof -
  have w1: "sp_Write ref_splitter (NewSparseShareSplitter ref_splitter)
      \<lparr>namespace = [0, 7], data = Some [1, 2], shareVersion = 0, signer = None\<rparr>
      = ([Some [1, 2]], None)"
    by (simp add: ref_splitter_def len_def)
  have w2: "sp_Write ref_splitter (NewSparseShareSplitter ref_splitter)
      \<lparr>namespace = [0, 7], data = None, shareVersion = 0, signer = None\<rparr>
      = ([], Some (CollaboratorError ''blob without data''))"
    by (simp add: ref_splitter_def len_def)
  have x: "sp_Export ref_splitter [Some [1, 2]] = Some [Some [1, 2]]"
    by (simp add: ref_splitter_def)
  show ?thesis
    using w1 w2 x
      ToShares_contract [where sp = ref_splitter and s = "[Some [1, 2]]"
        and b = "\<lparr>namespace = [0, 7], data = Some [1, 2], shareVersion = 0, signer = None\<rparr>",
        THEN conjunct2]
      ToShares_contract [where sp = ref_splitter and s = "[]"
        and e = "CollaboratorError ''blob without data''"
        and b = "\<lparr>namespace = [0, 7], data = None, shareVersion = 0, signer = None\<rparr>",
        THEN conjunct1]
    by simp
qed

text \<open>
  C9. \<^verbatim>\<open>UnmarshalJSON\<close> leaves its receiver as it was whenever it returns an error,
  whether the error comes from parsing or from the validating constructor; the receiver
  changes only in a call that parses, validates and returns no error, and then it is the
  validated blob.
\<close>

theorem UnmarshalJSON_atomic:
  "(snd (UnmarshalJSON env b bb) \<noteq> None \<longrightarrow> fst (UnmarshalJSON env b bb) = b) \<and>
   (json_Unmarshal env bb = (pb, Some e) \<longrightarrow> UnmarshalJSON env b bb = (b, Some e)) \<and>
   (json_Unmarshal env bb = (pb, None) \<and> NewBlobFromProto env pb = (r, Some e) \<longrightarrow>
      UnmarshalJSON env b bb = (b, Some e)) \<and>
   (fst (UnmarshalJSON env b bb) \<noteq> b \<longrightarrow>
      snd (UnmarshalJSON env b bb) = None \<and>
      (\<exists>p. json_Unmarshal env bb = (p, None) \<and>
           NewBlobFromProto env p = (Some (fst (UnmarshalJSON env b bb)), None)))"
proof -
  have a: "snd (UnmarshalJSON env b bb) \<noteq> None \<longrightarrow> fst (UnmarshalJSON env b bb) = b"
    using UnmarshalJSON_cases [of env b bb] by auto
  have c: "fst (UnmarshalJSON env b bb) \<noteq> b \<longrightarrow>
      snd (UnmarshalJSON env b bb) = None \<and>
      (\<exists>p. json_Unmarshal env bb = (p, None) \<and>
           NewBlobFromProto env p = (Some (fst (UnmarshalJSON env b bb)), None))"
    using UnmarshalJSON_cases [of env b bb] by auto
  have d: "json_Unmarshal env bb = (pb, Some e) \<longrightarrow> UnmarshalJSON env b bb = (b, Some e)"
    by (simp add: UnmarshalJSON_def)
  have f: "json_Unmarshal env bb = (pb, None) \<and> NewBlobFromProto env pb = (r, Some e) \<longrightarrow>
      UnmarshalJSON env b bb = (b, Some e)"
    by (simp add: UnmarshalJSON_def split: option.splits)
  from a c d f show ?thesis by blast
qed

theorem UnmarshalJSON_atomic_witness:
  "UnmarshalJSON ref_deps \<lparr>namespace = [0, 7], data = Some [1], shareVersion = 0, signer = None\<rparr>
     (Some [2, 7, 7, 0, 0, 1, 9, 2, 5, 5])
   = (\<lparr>namespace = [0, 7], data = Some [1], shareVersion = 0, signer = None\<rparr>,
      Some SignerNotAllowedError) \<and>
   UnmarshalJSON ref_deps \<lparr>namespace = [0, 7], data = Some [1], shareVersion = 0, signer = None\<rparr>
     (Some [9])
   = (\<lparr>namespace = [0, 7], data = Some [1], shareVersion = 0, signer = None\<rparr>,
      Some (CollaboratorError ''malformed''))"
proof -
  have p1: "json_Unmarshal ref_deps (Some [2, 7, 7, 0, 0, 1, 9, 2, 5, 5]) =
    (\<lparr>NamespaceId = Some [7, 7], NamespaceVersion = 0, ShareVersion = 0, Data = Some [9],
      Signer = Some [5, 5]\<rparr>, None)"
    by (simp add: ref_deps_def ref_decode_def)
  have v1: "NewBlobFromProto ref_deps
     \<lparr>NamespaceId = Some [7, 7], NamespaceVersion = 0, ShareVersion = 0, Data = Some [9],
      Signer = Some [5, 5]\<rparr> = (None, Some SignerNotAllowedError)"
    by (simp add: NewBlobFromProto_def NamespaceVersionMax_def MaxShareVersion_def ref_deps_def
        ref_NewNamespace_def NewBlob_def len_def version_consts)
  have p2: "json_Unmarshal ref_deps (Some [9]) = (zero_proto, Some (CollaboratorError ''malformed''))"
    by (simp add: ref_deps_def ref_decode_def)
  show ?thesis
    using p1 v1 p2
      UnmarshalJSON_atomic [where env = ref_deps and bb = "Some [2, 7, 7, 0, 0, 1, 9, 2, 5, 5]"
        and r = None and e = SignerNotAllowedError
        and pb = "\<lparr>NamespaceId = Some [7, 7], NamespaceVersion = 0, ShareVersion = 0,
                   Data = Some [9], Signer = Some [5, 5]\<rparr>"
        and b = "\<lparr>namespace = [0, 7], data = Some [1], shareVersion = 0, signer = None\<rparr>",
        THEN conjunct2, THEN conjunct2, THEN conjunct1]
      UnmarshalJSON_atomic [where env = ref_deps and bb = "Some [9]"
        and e = "CollaboratorError ''malformed''" and pb = zero_proto
        and b = "\<lparr>namespace = [0, 7], data = Some [1], shareVersion = 0, signer = None\<rparr>",
        THEN conjunct2, THEN conjunct1]
    by simp
qed

text \<open>
  C10. Whenever \<^verbatim>\<open>NewBlob\<close>, \<^verbatim>\<open>NewBlobFromProto\<close> or \<^verbatim>\<open>UnmarshalBlob\<close> returns a
  non-nil error, the blob it returns with it is nil.
\<close>

theorem error_means_nil_blob:
  "(snd (NewBlob env ns dat sv sg) \<noteq> None \<longrightarrow> fst (NewBlob env ns dat sv sg) = None) \<and>
   (snd (NewBlobFromProto env pb) \<noteq> None \<longrightarrow> fst (NewBlobFromProto env pb) = None) \<and>
   (snd (UnmarshalBlob env bs) \<noteq> None \<longrightarrow> fst (UnmarshalBlob env bs) = None)"
proof -
  have a: "snd (NewBlob env ns dat sv sg) \<noteq> None \<longrightarrow> fst (NewBlob env ns dat sv sg) = None"
    using NewBlob_cases [of env ns dat sv sg] by auto
  have b: "snd (NewBlobFromProto env p) \<noteq> None \<longrightarrow> fst (NewBlobFromProto env p) = None" for p
    using NewBlobFromProto_cases [of env p] by auto
  have c: "snd (UnmarshalBlob env bs) \<noteq> None \<longrightarrow> fst (UnmarshalBlob env bs) = None"
    using b by (cases "proto_Unmarshal env bs") (auto simp: UnmarshalBlob_def split: option.splits)
  from a b c show ?thesis by blast
qed

theorem error_means_nil_blob_witness:
  "snd (NewBlob ref_deps [0, 7] None 0 None) \<noteq> None \<and>
   fst (NewBlob ref_deps [0, 7] None 0 None) = None \<and>
   snd (UnmarshalBlob ref_deps (Some [2, 7, 7, 0, 0, 1, 9, 2, 5, 5])) \<noteq> None \<and>
   fst (UnmarshalBlob ref_deps (Some [2, 7, 7, 0, 0, 1, 9, 2, 5, 5])) = None"
proof -
  have h: "snd (NewBlob ref_deps [0, 7] None 0 None) \<noteq> None"
    by (simp add: NewBlob_def len_def)
  have u: "snd (UnmarshalBlob ref_deps (Some [2, 7, 7, 0, 0, 1, 9, 2, 5, 5])) \<noteq> None"
    by (simp add: UnmarshalBlob_def ref_deps_def ref_decode_def NewBlobFromProto_def
        NamespaceVersionMax_def MaxShareVersion_def ref_NewNamespace_def NewBlob_def len_def
        version_consts)
  show ?thesis
    using h u
      error_means_nil_blob [where env = ref_deps and ns = "[0, 7]" and dat = None and sv = 0
        and sg = None and bs = "Some [2, 7, 7, 0, 0, 1, 9, 2, 5, 5]"]
    by blast
qed

end
